theory Spec2Isabelle
  imports Main "HOL-Library.Word"
begin

unbundle bit_operations_syntax

section \<open>Machine types\<close>

text \<open>
  The kernel's fixed-width types. \<open>unsigned long\<close> is taken at 32 bits (the ARM target
  of the driver); every shift in the driver is by less than 12, so its width beyond 16
  bits never matters. C \<open>int\<close> values that are only compared and returned (return codes,
  the interrupt number) are HOL integers.
\<close>

type_synonym u8 = "8 word"
type_synonym u16 = "16 word"
type_synonym s32 = "32 word"
type_synonym ulong = "32 word"

section \<open>Bit manipulation macros\<close>

text \<open>
  \<^verbatim>\<open>#define BIT_SET(a, b) ((a) |= (1UL << (b)))\<close> on a \<open>u16\<close> lvalue: the operand is
  widened to \<open>unsigned long\<close>, or-ed with the shifted one and narrowed back on assignment.
  \<^verbatim>\<open>#define BIT_CHECK(a, b) (!!((a) & (1UL << (b))))\<close> on a \<open>u8\<close> operand.
\<close>

definition BIT_SET :: "u16 \<Rightarrow> nat \<Rightarrow> u16" where
  "BIT_SET a b = ucast ((ucast a :: ulong) OR push_bit b 1)"

definition BIT_CHECK :: "u8 \<Rightarrow> nat \<Rightarrow> bool" where
  "BIT_CHECK a b = ((ucast a :: ulong) AND push_bit b 1 \<noteq> 0)"

section \<open>Coordinate decoder\<close>

text \<open>
  The two \<open>for\<close> loops of \<open>create_coord\<close>, each as a recursive function of the loop
  counter and the coordinate built so far. The counter only runs over \<open>0..12\<close>; the
  second loop starts at 8, so \<open>i - 8\<close> never goes below zero.
\<close>

function create_coord_lsb_loop :: "u8 \<Rightarrow> nat \<Rightarrow> u16 \<Rightarrow> u16" where
  "create_coord_lsb_loop lsb i coord =
     (if i < 8
      then create_coord_lsb_loop lsb (i + 1) (if BIT_CHECK lsb i then BIT_SET coord i else coord)
      else coord)"
  by pat_completeness auto
termination
  by (relation "measure (\<lambda>(lsb, i, coord). 8 - i)") auto

function create_coord_msb_loop :: "u8 \<Rightarrow> nat \<Rightarrow> u16 \<Rightarrow> u16" where
  "create_coord_msb_loop msb i coord =
     (if i < 12
      then create_coord_msb_loop msb (i + 1)
             (if BIT_CHECK msb (i - 8) then BIT_SET coord i else coord)
      else coord)"
  by pat_completeness auto
termination
  by (relation "measure (\<lambda>(msb, i, coord). 12 - i)") auto

definition create_coord :: "u8 \<Rightarrow> u8 \<Rightarrow> u16" where
  "create_coord msb lsb = create_coord_msb_loop msb 8 (create_coord_lsb_loop lsb 0 0)"

section \<open>Register map and driver constants\<close>

definition INT_GPIO_PIN :: nat where "INT_GPIO_PIN = 4"
definition MTL2_MAX_X :: int where "MTL2_MAX_X = 480"
definition MTL2_MAX_Y :: int where "MTL2_MAX_Y = 800"

definition DEVICE_MODE :: u8 where "DEVICE_MODE = 0x00"
definition GEST_ID :: u8 where "GEST_ID = 0x01"
definition TD_STATUS :: u8 where "TD_STATUS = 0x02"
definition TOUCH1_XH :: u8 where "TOUCH1_XH = 0x03"
definition TOUCH1_XL :: u8 where "TOUCH1_XL = 0x04"
definition TOUCH1_YH :: u8 where "TOUCH1_YH = 0x05"
definition TOUCH1_YL :: u8 where "TOUCH1_YL = 0x06"
definition TOUCH2_XH :: u8 where "TOUCH2_XH = 0x09"
definition TOUCH2_XL :: u8 where "TOUCH2_XL = 0x0A"
definition TOUCH2_YH :: u8 where "TOUCH2_YH = 0x0B"
definition TOUCH2_YL :: u8 where "TOUCH2_YL = 0x0C"
definition TOUCH3_XH :: u8 where "TOUCH3_XH = 0x0F"
definition TOUCH3_XL :: u8 where "TOUCH3_XL = 0x10"
definition TOUCH3_YH :: u8 where "TOUCH3_YH = 0x11"
definition TOUCH3_YL :: u8 where "TOUCH3_YL = 0x12"
definition TOUCH4_XH :: u8 where "TOUCH4_XH = 0x15"
definition TOUCH4_XL :: u8 where "TOUCH4_XL = 0x16"
definition TOUCH4_YH :: u8 where "TOUCH4_YH = 0x17"
definition TOUCH4_YL :: u8 where "TOUCH4_YL = 0x18"
definition TOUCH5_XH :: u8 where "TOUCH5_XH = 0x1B"
definition TOUCH5_XL :: u8 where "TOUCH5_XL = 0x1C"
definition TOUCH5_YH :: u8 where "TOUCH5_YH = 0x1D"
definition TOUCH5_YL :: u8 where "TOUCH5_YL = 0x1E"

text \<open>
  Constants of the kernel headers the driver includes (\<open>errno.h\<close>, \<open>input.h\<close>,
  \<open>interrupt.h\<close>, \<open>i2c.h\<close>), with their Linux values.
\<close>

definition ENXIO :: int where "ENXIO = 6"
definition ENOMEM :: int where "ENOMEM = 12"
definition ENODEV :: int where "ENODEV = 19"
definition EV_KEY :: nat where "EV_KEY = 0x01"
definition ABS_X :: nat where "ABS_X = 0x00"
definition ABS_Y :: nat where "ABS_Y = 0x01"
definition BTN_TOUCH :: nat where "BTN_TOUCH = 0x14a"
definition INPUT_PROP_DIRECT :: nat where "INPUT_PROP_DIRECT = 0x01"
definition BUS_I2C :: nat where "BUS_I2C = 0x18"
definition IRQF_TRIGGER_RISING :: nat where "IRQF_TRIGGER_RISING = 0x01"
definition I2C_FUNC_I2C :: nat where "I2C_FUNC_I2C = 0x01"
definition IRQ_HANDLED :: int where "IRQ_HANDLED = 1"

definition newline :: string where "newline = [CHR 0x0A]"

section \<open>The platform as seen from the driver\<close>

text \<open>
  Everything the driver does besides computing a coordinate is a call into the kernel.
  A call is recorded with its arguments and, where it has one, the value it returned.
  Kernel objects (the bus client, its adapter, the input device) are opaque pointers.
\<close>

datatype ptr = NULL | Ptr nat

datatype loglevel = KERN_CONT | KERN_INFO

datatype call =
    Printk loglevel string "int list"
  | Dev_err ptr string "int list"
  | Gpio_request nat int
  | Gpio_to_irq nat int
  | Devm_request_irq ptr int nat string int
  | I2c_check_functionality ptr nat int
  | Devm_input_allocate_device ptr ptr
  | Store_input_name ptr string
  | Store_input_bustype ptr nat
  | Store_input_parent ptr ptr
  | Set_bit_propbit ptr nat
  | Input_set_capability ptr nat nat
  | Input_set_abs_params ptr nat int int int int
  | Input_set_drvdata ptr
  | Input_register_device ptr int
  | I2c_smbus_read_byte_data ptr u8 s32
  | Input_report_abs ptr nat int
  | Input_report_key ptr nat int
  | Input_sync ptr
  | I2c_get_adapter nat ptr
  | I2c_new_device ptr ptr
  | I2c_add_driver int
  | Disable_irq int
  | Gpio_free nat
  | Input_unregister_device ptr
  | I2c_unregister_device ptr
  | I2c_del_driver

text \<open>
  What the platform answers. Each fallible call of \<open>mtl2_touchscreen_probe\<close> and
  \<open>mtl2_touchscreen_init\<close> happens at most once per run, so one answer per call is
  fully general; a register read is answered per register, each register being read at
  most once per interrupt.
\<close>

record platform =
  gpio_request_ret :: int
  gpio_to_irq_ret :: int
  devm_request_irq_ret :: int
  i2c_check_functionality_ret :: int
  devm_input_allocate_device_ret :: ptr
  input_register_device_ret :: int
  i2c_smbus_read_byte_data_ret :: "u8 \<Rightarrow> s32"
  i2c_get_adapter_ret :: ptr
  i2c_new_device_ret :: ptr
  i2c_add_driver_ret :: int

text \<open>
  The driver's globals (\<open>struct mtl2_touchscreen_data data\<close> and \<open>mtl2_irq\<close>) together
  with the calls issued so far, oldest first.
\<close>

record world =
  data_client :: ptr
  data_input :: ptr
  mtl2_irq :: int
  calls :: "call list"

definition initial_world :: world where
  "initial_world = \<lparr>data_client = NULL, data_input = NULL, mtl2_irq = - 1, calls = []\<rparr>"

definition emit :: "call \<Rightarrow> world \<Rightarrow> world" where
  "emit c w = w\<lparr>calls := calls w @ [c]\<rparr>"

definition issued :: "world \<Rightarrow> world \<Rightarrow> call list" where
  "issued w w' = drop (length (calls w)) (calls w')"

definition gpio_request :: "platform \<Rightarrow> nat \<Rightarrow> world \<Rightarrow> int \<times> world" where
  "gpio_request pf pin w = (gpio_request_ret pf, emit (Gpio_request pin (gpio_request_ret pf)) w)"

definition gpio_to_irq :: "platform \<Rightarrow> nat \<Rightarrow> world \<Rightarrow> int \<times> world" where
  "gpio_to_irq pf pin w = (gpio_to_irq_ret pf, emit (Gpio_to_irq pin (gpio_to_irq_ret pf)) w)"

definition devm_request_irq ::
  "platform \<Rightarrow> ptr \<Rightarrow> int \<Rightarrow> nat \<Rightarrow> string \<Rightarrow> world \<Rightarrow> int \<times> world" where
  "devm_request_irq pf dev irq flags name w =
     (devm_request_irq_ret pf, emit (Devm_request_irq dev irq flags name (devm_request_irq_ret pf)) w)"

definition i2c_check_functionality :: "platform \<Rightarrow> ptr \<Rightarrow> nat \<Rightarrow> world \<Rightarrow> int \<times> world" where
  "i2c_check_functionality pf client func w =
     (i2c_check_functionality_ret pf,
      emit (I2c_check_functionality client func (i2c_check_functionality_ret pf)) w)"

definition devm_input_allocate_device :: "platform \<Rightarrow> ptr \<Rightarrow> world \<Rightarrow> ptr \<times> world" where
  "devm_input_allocate_device pf dev w =
     (devm_input_allocate_device_ret pf,
      emit (Devm_input_allocate_device dev (devm_input_allocate_device_ret pf)) w)"

definition input_register_device :: "platform \<Rightarrow> ptr \<Rightarrow> world \<Rightarrow> int \<times> world" where
  "input_register_device pf input w =
     (input_register_device_ret pf, emit (Input_register_device input (input_register_device_ret pf)) w)"

definition i2c_smbus_read_byte_data :: "platform \<Rightarrow> ptr \<Rightarrow> u8 \<Rightarrow> world \<Rightarrow> s32 \<times> world" where
  "i2c_smbus_read_byte_data pf client reg w =
     (i2c_smbus_read_byte_data_ret pf reg,
      emit (I2c_smbus_read_byte_data client reg (i2c_smbus_read_byte_data_ret pf reg)) w)"

section \<open>Interrupt handler\<close>

text \<open>
  \<open>i2c_smbus_read_byte_data\<close> returns an \<open>s32\<close>: the byte read, or a negative errno. The
  handler assigns it to a \<open>u8\<close>, which keeps the low eight bits. The \<open>u16\<close> coordinates
  are passed as \<open>int\<close> arguments, which preserves their value.
\<close>

definition mtl2_touchscreen_irq :: "platform \<Rightarrow> int \<Rightarrow> world \<Rightarrow> int \<times> world" where
  "mtl2_touchscreen_irq pf irq w0 =
     (let (r, w1) = i2c_smbus_read_byte_data pf (data_client w0) TOUCH1_XH w0;
          x_h = (ucast r :: u8);
          (r, w2) = i2c_smbus_read_byte_data pf (data_client w1) TOUCH1_XL w1;
          x_l = (ucast r :: u8);
          x = create_coord x_h x_l;
          (r, w3) = i2c_smbus_read_byte_data pf (data_client w2) TOUCH1_YH w2;
          y_h = (ucast r :: u8);
          (r, w4) = i2c_smbus_read_byte_data pf (data_client w3) TOUCH1_YL w3;
          y_l = (ucast r :: u8);
          y = create_coord y_h y_l;
          w5 = emit (Input_report_abs (data_input w4) ABS_X (uint x)) w4;
          w6 = emit (Input_report_abs (data_input w5) ABS_Y (uint y)) w5;
          w7 = emit (Input_report_key (data_input w6) BTN_TOUCH 1) w6;
          w8 = emit (Input_sync (data_input w7)) w7;
          w9 = emit (Printk KERN_CONT (''%d, %d'' @ newline) [uint x, uint y]) w8
      in (IRQ_HANDLED, w9))"

section \<open>Attach and detach\<close>

text \<open>
  \<open>mtl2_touchscreen_probe\<close> returns on each failure; after a successful registration
  control reaches the end of the function without a \<open>return\<close> statement, so there is no
  defined return value: \<open>None\<close>. \<open>mtl2_touchscreen_exit\<close> likewise returns nothing.
  \<open>mtl2_touchscreen_init\<close> ignores what \<open>i2c_add_driver\<close> returns; the bus core's
  call of the probe function for a matching device is a run of \<open>mtl2_touchscreen_probe\<close>
  of its own.
\<close>

definition mtl2_touchscreen_probe :: "platform \<Rightarrow> ptr \<Rightarrow> world \<Rightarrow> int option \<times> world" where
  "mtl2_touchscreen_probe pf client w0 =
     (let (r, w1) = gpio_request pf INT_GPIO_PIN w0 in
      if r \<noteq> 0 then (Some (- 1), emit (Dev_err client ''GPIO request failure.'' []) w1)
      else
      let (r, w2) = gpio_to_irq pf INT_GPIO_PIN w1;
          w2 = w2\<lparr>mtl2_irq := r\<rparr> in
      if mtl2_irq w2 < 0
      then (Some (- 1), emit (Dev_err client ''GPIO mapping to IQR failure.'' []) w2)
      else
      let w3 = emit (Printk KERN_INFO (''Mapped int %d'' @ newline) [mtl2_irq w2]) w2;
          (r, w4) = devm_request_irq pf client (mtl2_irq w3) IRQF_TRIGGER_RISING ''mtl2_irq'' w3 in
      if r \<noteq> 0
      then (Some (- ENODEV), emit (Dev_err client (''IRQ request failure.'' @ newline) []) w4)
      else
      let (r, w5) = i2c_check_functionality pf client I2C_FUNC_I2C w4 in
      if r = 0
      then (Some (- ENXIO),
            emit (Dev_err client (''i2c_check_functionality error'' @ newline) []) w5)
      else
      let (input, w6) = devm_input_allocate_device pf client w5 in
      if input = NULL then (Some (- ENOMEM), w6)
      else
      let w7 = w6\<lparr>data_input := input\<rparr>;
          w8 = emit (Store_input_name input ''MTL2 Touchscreen'') w7;
          w9 = emit (Store_input_bustype input BUS_I2C) w8;
          w10 = emit (Store_input_parent input client) w9;
          w11 = emit (Set_bit_propbit input INPUT_PROP_DIRECT) w10;
          w12 = emit (Input_set_capability input EV_KEY BTN_TOUCH) w11;
          w13 = emit (Input_set_abs_params input ABS_X 0 MTL2_MAX_X 0 0) w12;
          w14 = emit (Input_set_abs_params input ABS_Y 0 MTL2_MAX_Y 0 0) w13;
          w15 = emit (Input_set_drvdata input) w14;
          (error, w16) = input_register_device pf (data_input w15) w15 in
      if error \<noteq> 0
      then (Some error,
            emit (Dev_err client
              (''Failed to register input device. Error code: %d'' @ newline) [error]) w16)
      else (None, w16))"

definition mtl2_touchscreen_init :: "platform \<Rightarrow> world \<Rightarrow> int \<times> world" where
  "mtl2_touchscreen_init pf w0 =
     (let w1 = emit (Printk KERN_CONT ''Inserting module.'' []) w0;
          i2c_adapt = i2c_get_adapter_ret pf;
          w2 = emit (I2c_get_adapter 1 i2c_adapt) w1;
          w3 = emit (I2c_new_device i2c_adapt (i2c_new_device_ret pf)) w2;
          w4 = w3\<lparr>data_client := i2c_new_device_ret pf\<rparr>;
          w5 = emit (I2c_add_driver (i2c_add_driver_ret pf)) w4
      in (0, w5))"

definition mtl2_touchscreen_exit :: "world \<Rightarrow> int option \<times> world" where
  "mtl2_touchscreen_exit w0 =
     (let w1 = emit (Printk KERN_CONT ''Removing module.'' []) w0;
          w2 = emit (Disable_irq (mtl2_irq w1)) w1;
          w3 = emit (Gpio_free INT_GPIO_PIN) w2;
          w4 = emit (Input_unregister_device (data_input w3)) w3;
          w5 = emit (I2c_unregister_device (data_client w4)) w4;
          w6 = emit I2c_del_driver w5
      in (None, w6))"

section \<open>Observing a run\<close>

text \<open>Classification of the recorded calls, used to state what a run did.\<close>

fun is_input_event :: "call \<Rightarrow> bool" where
  "is_input_event (Input_report_abs input code v) = True"
| "is_input_event (Input_report_key input code v) = True"
| "is_input_event (Input_sync input) = True"
| "is_input_event _ = False"

fun read_register :: "call \<Rightarrow> u8 option" where
  "read_register (I2c_smbus_read_byte_data client reg r) = Some reg"
| "read_register _ = None"

definition reads_of :: "call list \<Rightarrow> u8 list" where
  "reads_of cs = List.map_filter read_register cs"

fun log_format :: "call \<Rightarrow> string option" where
  "log_format (Dev_err dev fmt args) = Some fmt"
| "log_format _ = None"

definition logged :: "call list \<Rightarrow> string list" where
  "logged cs = List.map_filter log_format cs"

text \<open>Reported axis values, and the ranges declared for the axes.\<close>

fun abs_report :: "call \<Rightarrow> (nat \<times> int) option" where
  "abs_report (Input_report_abs input code v) = Some (code, v)"
| "abs_report _ = None"

fun abs_range :: "call \<Rightarrow> (nat \<times> int \<times> int) option" where
  "abs_range (Input_set_abs_params input axis lo hi fuzz flat) = Some (axis, lo, hi)"
| "abs_range _ = None"

text \<open>
  The calls that give back one of the device's four resources: the interrupt line, the
  GPIO pin, the input device and the bus client. \<open>i2c_del_driver\<close> takes the driver out
  of the bus core's driver table and gives back none of them.
\<close>

fun is_release :: "call \<Rightarrow> bool" where
  "is_release (Disable_irq irq) = True"
| "is_release (Gpio_free pin) = True"
| "is_release (Input_unregister_device input) = True"
| "is_release (I2c_unregister_device client) = True"
| "is_release _ = False"

text \<open>
  The resources the kernel holds for the driver after a sequence of calls: a successful
  acquisition adds one, a release takes it away. \<open>disable_irq\<close> masks the line; the
  handler stays installed.
\<close>

datatype resource =
    Gpio_pin nat
  | Irq_handler int
  | Input_device ptr
  | Input_registered ptr

fun platform_step :: "resource set \<Rightarrow> call \<Rightarrow> resource set" where
  "platform_step R (Gpio_request pin r) = (if r = 0 then insert (Gpio_pin pin) R else R)"
| "platform_step R (Gpio_free pin) = R - {Gpio_pin pin}"
| "platform_step R (Devm_request_irq dev irq flags name r) =
     (if r = 0 then insert (Irq_handler irq) R else R)"
| "platform_step R (Devm_input_allocate_device dev input) =
     (if input \<noteq> NULL then insert (Input_device input) R else R)"
| "platform_step R (Input_register_device input r) =
     (if r = 0 then insert (Input_registered input) R else R)"
| "platform_step R (Input_unregister_device input) = R - {Input_registered input}"
| "platform_step R _ = R"

definition held :: "call list \<Rightarrow> resource set" where
  "held cs = foldl platform_step {} cs"

text \<open>
  The six ways Attach can fail, in the order of the steps, and the step each acquisition
  call belongs to. \<open>failure_kind\<close> names the first step whose answer the driver treats
  as a failure; \<open>None\<close> when every step succeeds.
\<close>

datatype attach_error =
    ResourceBusy
  | InterruptMappingFailure
  | InstallError
  | UnsupportedBus
  | AllocationFailure
  | RegistrationError

definition failure_kind :: "platform \<Rightarrow> attach_error option" where
  "failure_kind pf =
     (if gpio_request_ret pf \<noteq> 0 then Some ResourceBusy
      else if gpio_to_irq_ret pf < 0 then Some InterruptMappingFailure
      else if devm_request_irq_ret pf \<noteq> 0 then Some InstallError
      else if i2c_check_functionality_ret pf = 0 then Some UnsupportedBus
      else if devm_input_allocate_device_ret pf = NULL then Some AllocationFailure
      else if input_register_device_ret pf \<noteq> 0 then Some RegistrationError
      else None)"

fun attach_step :: "call \<Rightarrow> attach_error option" where
  "attach_step (Gpio_request pin r) = Some ResourceBusy"
| "attach_step (Gpio_to_irq pin r) = Some InterruptMappingFailure"
| "attach_step (Devm_request_irq dev irq flags name r) = Some InstallError"
| "attach_step (I2c_check_functionality client func r) = Some UnsupportedBus"
| "attach_step (Devm_input_allocate_device dev input) = Some AllocationFailure"
| "attach_step (Input_register_device input r) = Some RegistrationError"
| "attach_step _ = None"

definition attach_order :: "attach_error list" where
  "attach_order = [ResourceBusy, InterruptMappingFailure, InstallError, UnsupportedBus,
     AllocationFailure, RegistrationError]"

definition steps_through :: "attach_error \<Rightarrow> attach_error list" where
  "steps_through k = takeWhile (\<lambda>j. j \<noteq> k) attach_order @ [k]"

definition attach_errno :: "platform \<Rightarrow> attach_error \<Rightarrow> int" where
  "attach_errno pf k =
     (case k of
        ResourceBusy \<Rightarrow> - 1
      | InterruptMappingFailure \<Rightarrow> - 1
      | InstallError \<Rightarrow> - ENODEV
      | UnsupportedBus \<Rightarrow> - ENXIO
      | AllocationFailure \<Rightarrow> - ENOMEM
      | RegistrationError \<Rightarrow> input_register_device_ret pf)"

text \<open>
  A platform on which every call succeeds and the bus holds the sample
  X-high \<open>0x00\<close>, X-low \<open>0x64\<close>, Y-high \<open>0x01\<close>, Y-low \<open>0x2C\<close>; the concrete
  instances below start from it.
\<close>

definition example_platform :: platform where
  "example_platform =
     \<lparr>gpio_request_ret = 0,
      gpio_to_irq_ret = 17,
      devm_request_irq_ret = 0,
      i2c_check_functionality_ret = 1,
      devm_input_allocate_device_ret = Ptr 2,
      input_register_device_ret = 0,
      i2c_smbus_read_byte_data_ret =
        (\<lambda>reg. if reg = TOUCH1_XL then 0x64 else if reg = TOUCH1_YH then 0x01
               else if reg = TOUCH1_YL then 0x2C else 0x00),
      i2c_get_adapter_ret = Ptr 0,
      i2c_new_device_ret = Ptr 1,
      i2c_add_driver_ret = 0\<rparr>"

section \<open>The decoder, bit by bit\<close>

lemma BIT_CHECK_bit: "BIT_CHECK a b \<longleftrightarrow> bit a b"
proof -
  have "BIT_CHECK a b \<longleftrightarrow> bit (ucast a :: ulong) b"
    by (simp add: BIT_CHECK_def bit_iff_and_push_bit_not_eq_0)
  also have "\<dots> \<longleftrightarrow> bit a b"
    by (auto simp add: bit_ucast_iff dest: bit_imp_le_length)
  finally show ?thesis .
qed

lemma bit_BIT_SET: "b < 16 \<Longrightarrow> bit (BIT_SET a b) n \<longleftrightarrow> bit a n \<or> n = b"
  by (auto simp add: BIT_SET_def bit_ucast_iff bit_or_iff bit_exp_iff
      dest: bit_imp_le_length)

declare create_coord_lsb_loop.simps [simp del]
declare create_coord_msb_loop.simps [simp del]

lemma bit_create_coord_lsb_loop:
  "bit (create_coord_lsb_loop lsb i coord) n \<longleftrightarrow> bit coord n \<or> (i \<le> n \<and> n < 8 \<and> bit lsb n)"
proof (induction lsb i coord rule: create_coord_lsb_loop.induct)
  case (1 lsb i coord)
  show ?case
  proof (cases "i < 8")
    case True
    then have "bit (create_coord_lsb_loop lsb i coord) n \<longleftrightarrow>
        bit (if BIT_CHECK lsb i then BIT_SET coord i else coord) n
          \<or> (i + 1 \<le> n \<and> n < 8 \<and> bit lsb n)"
      using "1.IH" by (subst create_coord_lsb_loop.simps) simp
    with True show ?thesis
      by (auto simp add: BIT_CHECK_bit bit_BIT_SET le_less Suc_le_eq)
  next
    case False
    then show ?thesis
      by (subst create_coord_lsb_loop.simps) auto
  qed
qed

lemma bit_create_coord_msb_loop:
  "8 \<le> i \<Longrightarrow> bit (create_coord_msb_loop msb i coord) n \<longleftrightarrow>
     bit coord n \<or> (i \<le> n \<and> n < 12 \<and> bit msb (n - 8))"
proof (induction msb i coord rule: create_coord_msb_loop.induct)
  case (1 msb i coord)
  show ?case
  proof (cases "i < 12")
    case True
    then have "bit (create_coord_msb_loop msb i coord) n \<longleftrightarrow>
        bit (if BIT_CHECK msb (i - 8) then BIT_SET coord i else coord) n
          \<or> (i + 1 \<le> n \<and> n < 12 \<and> bit msb (n - 8))"
      using "1.IH" "1.prems" by (subst create_coord_msb_loop.simps) simp
    with True show ?thesis
      by (auto simp add: BIT_CHECK_bit bit_BIT_SET le_less Suc_le_eq)
  next
    case False
    then show ?thesis
      by (subst create_coord_msb_loop.simps) auto
  qed
qed

lemma bit_create_coord:
  "bit (create_coord msb lsb) n \<longleftrightarrow> (n < 8 \<and> bit lsb n) \<or> (8 \<le> n \<and> n < 12 \<and> bit msb (n - 8))"
  by (simp add: create_coord_def bit_create_coord_msb_loop bit_create_coord_lsb_loop)

lemma create_coord_eq:
  "create_coord msb lsb = ucast lsb OR push_bit 8 (ucast (msb AND 0x0F))"
proof (rule bit_word_eqI)
  fix n
  assume "n < LENGTH(16)"
  have m: "(0x0F :: u8) = mask 4"
    by (simp add: mask_eq_exp_minus_1)
  show "bit (create_coord msb lsb) n \<longleftrightarrow>
      bit (ucast lsb OR push_bit 8 (ucast (msb AND 0x0F)) :: u16) n"
    unfolding m
    by (auto simp add: bit_create_coord bit_or_iff bit_ucast_iff bit_push_bit_iff
        bit_and_iff bit_mask_iff dest: bit_imp_le_length)
qed


lemma create_coord_le: "create_coord msb lsb \<le> 4095"
proof -
  have "create_coord msb lsb AND mask 12 = create_coord msb lsb"
    by (rule bit_word_eqI) (auto simp add: bit_and_iff bit_mask_iff bit_create_coord)
  then have "create_coord msb lsb \<le> mask 12"
    by (metis word_and_le1)
  then show ?thesis
    by (simp add: mask_eq_exp_minus_1)
qed

lemma create_coord_eq_iff:
  "create_coord h1 l1 = create_coord h2 l2 \<longleftrightarrow> h1 AND 0x0F = h2 AND 0x0F \<and> l1 = l2"
proof
  assume eq: "create_coord h1 l1 = create_coord h2 l2"
  have m: "(0x0F :: u8) = mask 4"
    by (simp add: mask_eq_exp_minus_1)
  have b: "bit (create_coord h1 l1) n \<longleftrightarrow> bit (create_coord h2 l2) n" for n
    using eq by simp
  have "l1 = l2"
  proof (rule bit_word_eqI)
    fix n
    assume "n < LENGTH(8)"
    then show "bit l1 n \<longleftrightarrow> bit l2 n"
      using b [of n] by (simp add: bit_create_coord)
  qed
  moreover have "h1 AND 0x0F = h2 AND 0x0F"
    unfolding m
  proof (rule bit_word_eqI)
    fix n
    assume "n < LENGTH(8)"
    show "bit (h1 AND mask 4) n \<longleftrightarrow> bit (h2 AND mask 4) n"
      using b [of "n + 8"] by (auto simp add: bit_create_coord bit_and_iff bit_mask_iff)
  qed
  ultimately show "h1 AND 0x0F = h2 AND 0x0F \<and> l1 = l2"
    by simp
next
  assume "h1 AND 0x0F = h2 AND 0x0F \<and> l1 = l2"
  then show "create_coord h1 l1 = create_coord h2 l2"
    by (simp add: create_coord_eq)
qed

lemma low_nibble_id: "h \<le> 0x0F \<Longrightarrow> h AND 0x0F = (h :: u8)"
proof -
  assume "h \<le> 0x0F"
  then have "h < 2 ^ 4"
    by (simp add: word_less_nat_alt word_le_nat_alt)
  then have "h AND mask 4 = h"
    by (simp add: less_mask_eq)
  then show ?thesis
    by (simp add: mask_eq_exp_minus_1)
qed

section \<open>Narrowing a read result to a byte\<close>

lemma ucast_s32_u8: "(ucast (r :: s32) :: u8) = word_of_int (sint r mod 256)"
proof -
  have "(ucast r :: u8) = scast r"
    by (rule bit_word_eqI) (auto simp add: bit_simps)
  then have "(ucast r :: u8) = word_of_int (sint r)"
    by simp
  also have "\<dots> = word_of_int (sint r mod 2 ^ LENGTH(8))"
    by (simp only: word_of_int_eq_iff take_bit_eq_mod mod_mod_trivial)
  finally show ?thesis
    by simp
qed

section \<open>What each entry point does\<close>

lemma issued_append: "issued w (w\<lparr>calls := calls w @ cs\<rparr>) = cs"
  by (simp add: issued_def)

lemma issued_append_more:
  "issued w (w\<lparr>mtl2_irq := i, calls := calls w @ cs\<rparr>) = cs"
  "issued w (w\<lparr>data_input := p, mtl2_irq := i, calls := calls w @ cs\<rparr>) = cs"
  "issued w (w\<lparr>data_client := q, calls := calls w @ cs\<rparr>) = cs"
  by (simp_all add: issued_def)

lemma held_append: "held (cs @ ds) = foldl platform_step (held cs) ds"
  by (simp add: held_def)

lemma irq_result:
  "mtl2_touchscreen_irq pf irq w =
     (IRQ_HANDLED,
      w\<lparr>calls := calls w @
        [I2c_smbus_read_byte_data (data_client w) TOUCH1_XH
           (i2c_smbus_read_byte_data_ret pf TOUCH1_XH),
         I2c_smbus_read_byte_data (data_client w) TOUCH1_XL
           (i2c_smbus_read_byte_data_ret pf TOUCH1_XL),
         I2c_smbus_read_byte_data (data_client w) TOUCH1_YH
           (i2c_smbus_read_byte_data_ret pf TOUCH1_YH),
         I2c_smbus_read_byte_data (data_client w) TOUCH1_YL
           (i2c_smbus_read_byte_data_ret pf TOUCH1_YL),
         Input_report_abs (data_input w) ABS_X
           (uint (create_coord (ucast (i2c_smbus_read_byte_data_ret pf TOUCH1_XH))
                               (ucast (i2c_smbus_read_byte_data_ret pf TOUCH1_XL)))),
         Input_report_abs (data_input w) ABS_Y
           (uint (create_coord (ucast (i2c_smbus_read_byte_data_ret pf TOUCH1_YH))
                               (ucast (i2c_smbus_read_byte_data_ret pf TOUCH1_YL)))),
         Input_report_key (data_input w) BTN_TOUCH 1,
         Input_sync (data_input w),
         Printk KERN_CONT (''%d, %d'' @ newline)
           [uint (create_coord (ucast (i2c_smbus_read_byte_data_ret pf TOUCH1_XH))
                               (ucast (i2c_smbus_read_byte_data_ret pf TOUCH1_XL))),
            uint (create_coord (ucast (i2c_smbus_read_byte_data_ret pf TOUCH1_YH))
                               (ucast (i2c_smbus_read_byte_data_ret pf TOUCH1_YL)))]]\<rparr>)"
  by (simp add: mtl2_touchscreen_irq_def i2c_smbus_read_byte_data_def emit_def Let_def)

lemma exit_result:
  "mtl2_touchscreen_exit w =
     (None,
      w\<lparr>calls := calls w @
        [Printk KERN_CONT ''Removing module.'' [],
         Disable_irq (mtl2_irq w),
         Gpio_free INT_GPIO_PIN,
         Input_unregister_device (data_input w),
         I2c_unregister_device (data_client w),
         I2c_del_driver]\<rparr>)"
  by (simp add: mtl2_touchscreen_exit_def emit_def Let_def)

lemma init_result:
  "mtl2_touchscreen_init pf w =
     (0,
      w\<lparr>data_client := i2c_new_device_ret pf,
        calls := calls w @
        [Printk KERN_CONT ''Inserting module.'' [],
         I2c_get_adapter 1 (i2c_get_adapter_ret pf),
         I2c_new_device (i2c_get_adapter_ret pf) (i2c_new_device_ret pf),
         I2c_add_driver (i2c_add_driver_ret pf)]\<rparr>)"
  by (simp add: mtl2_touchscreen_init_def emit_def Let_def)

lemma probe_gpio_fail:
  "gpio_request_ret pf \<noteq> 0 \<Longrightarrow>
   mtl2_touchscreen_probe pf client w =
     (Some (- 1),
      w\<lparr>calls := calls w @
        [Gpio_request INT_GPIO_PIN (gpio_request_ret pf),
         Dev_err client ''GPIO request failure.'' []]\<rparr>)"
  by (simp add: mtl2_touchscreen_probe_def gpio_request_def emit_def Let_def)

lemma probe_map_fail:
  "gpio_request_ret pf = 0 \<Longrightarrow> gpio_to_irq_ret pf < 0 \<Longrightarrow>
   mtl2_touchscreen_probe pf client w =
     (Some (- 1),
      w\<lparr>mtl2_irq := gpio_to_irq_ret pf,
        calls := calls w @
        [Gpio_request INT_GPIO_PIN 0,
         Gpio_to_irq INT_GPIO_PIN (gpio_to_irq_ret pf),
         Dev_err client ''GPIO mapping to IQR failure.'' []]\<rparr>)"
  by (simp add: mtl2_touchscreen_probe_def gpio_request_def gpio_to_irq_def emit_def Let_def)

lemma probe_install_fail:
  "gpio_request_ret pf = 0 \<Longrightarrow> 0 \<le> gpio_to_irq_ret pf \<Longrightarrow> devm_request_irq_ret pf \<noteq> 0 \<Longrightarrow>
   mtl2_touchscreen_probe pf client w =
     (Some (- ENODEV),
      w\<lparr>mtl2_irq := gpio_to_irq_ret pf,
        calls := calls w @
        [Gpio_request INT_GPIO_PIN 0,
         Gpio_to_irq INT_GPIO_PIN (gpio_to_irq_ret pf),
         Printk KERN_INFO (''Mapped int %d'' @ newline) [gpio_to_irq_ret pf],
         Devm_request_irq client (gpio_to_irq_ret pf) IRQF_TRIGGER_RISING ''mtl2_irq''
           (devm_request_irq_ret pf),
         Dev_err client (''IRQ request failure.'' @ newline) []]\<rparr>)"
  by (simp add: mtl2_touchscreen_probe_def gpio_request_def gpio_to_irq_def
      devm_request_irq_def emit_def Let_def)

lemma probe_bus_fail:
  "gpio_request_ret pf = 0 \<Longrightarrow> 0 \<le> gpio_to_irq_ret pf \<Longrightarrow> devm_request_irq_ret pf = 0 \<Longrightarrow>
   i2c_check_functionality_ret pf = 0 \<Longrightarrow>
   mtl2_touchscreen_probe pf client w =
     (Some (- ENXIO),
      w\<lparr>mtl2_irq := gpio_to_irq_ret pf,
        calls := calls w @
        [Gpio_request INT_GPIO_PIN 0,
         Gpio_to_irq INT_GPIO_PIN (gpio_to_irq_ret pf),
         Printk KERN_INFO (''Mapped int %d'' @ newline) [gpio_to_irq_ret pf],
         Devm_request_irq client (gpio_to_irq_ret pf) IRQF_TRIGGER_RISING ''mtl2_irq'' 0,
         I2c_check_functionality client I2C_FUNC_I2C 0,
         Dev_err client (''i2c_check_functionality error'' @ newline) []]\<rparr>)"
  by (simp add: mtl2_touchscreen_probe_def gpio_request_def gpio_to_irq_def
      devm_request_irq_def i2c_check_functionality_def emit_def Let_def)

lemma probe_alloc_fail:
  "gpio_request_ret pf = 0 \<Longrightarrow> 0 \<le> gpio_to_irq_ret pf \<Longrightarrow> devm_request_irq_ret pf = 0 \<Longrightarrow>
   i2c_check_functionality_ret pf \<noteq> 0 \<Longrightarrow> devm_input_allocate_device_ret pf = NULL \<Longrightarrow>
   mtl2_touchscreen_probe pf client w =
     (Some (- ENOMEM),
      w\<lparr>mtl2_irq := gpio_to_irq_ret pf,
        calls := calls w @
        [Gpio_request INT_GPIO_PIN 0,
         Gpio_to_irq INT_GPIO_PIN (gpio_to_irq_ret pf),
         Printk KERN_INFO (''Mapped int %d'' @ newline) [gpio_to_irq_ret pf],
         Devm_request_irq client (gpio_to_irq_ret pf) IRQF_TRIGGER_RISING ''mtl2_irq'' 0,
         I2c_check_functionality client I2C_FUNC_I2C (i2c_check_functionality_ret pf),
         Devm_input_allocate_device client NULL]\<rparr>)"
  by (simp add: mtl2_touchscreen_probe_def gpio_request_def gpio_to_irq_def
      devm_request_irq_def i2c_check_functionality_def devm_input_allocate_device_def
      emit_def Let_def)

lemma probe_register_fail:
  "gpio_request_ret pf = 0 \<Longrightarrow> 0 \<le> gpio_to_irq_ret pf \<Longrightarrow> devm_request_irq_ret pf = 0 \<Longrightarrow>
   i2c_check_functionality_ret pf \<noteq> 0 \<Longrightarrow> devm_input_allocate_device_ret pf \<noteq> NULL \<Longrightarrow>
   input_register_device_ret pf \<noteq> 0 \<Longrightarrow>
   mtl2_touchscreen_probe pf client w =
     (Some (input_register_device_ret pf),
      w\<lparr>data_input := devm_input_allocate_device_ret pf,
        mtl2_irq := gpio_to_irq_ret pf,
        calls := calls w @
        [Gpio_request INT_GPIO_PIN 0,
         Gpio_to_irq INT_GPIO_PIN (gpio_to_irq_ret pf),
         Printk KERN_INFO (''Mapped int %d'' @ newline) [gpio_to_irq_ret pf],
         Devm_request_irq client (gpio_to_irq_ret pf) IRQF_TRIGGER_RISING ''mtl2_irq'' 0,
         I2c_check_functionality client I2C_FUNC_I2C (i2c_check_functionality_ret pf),
         Devm_input_allocate_device client (devm_input_allocate_device_ret pf),
         Store_input_name (devm_input_allocate_device_ret pf) ''MTL2 Touchscreen'',
         Store_input_bustype (devm_input_allocate_device_ret pf) BUS_I2C,
         Store_input_parent (devm_input_allocate_device_ret pf) client,
         Set_bit_propbit (devm_input_allocate_device_ret pf) INPUT_PROP_DIRECT,
         Input_set_capability (devm_input_allocate_device_ret pf) EV_KEY BTN_TOUCH,
         Input_set_abs_params (devm_input_allocate_device_ret pf) ABS_X 0 MTL2_MAX_X 0 0,
         Input_set_abs_params (devm_input_allocate_device_ret pf) ABS_Y 0 MTL2_MAX_Y 0 0,
         Input_set_drvdata (devm_input_allocate_device_ret pf),
         Input_register_device (devm_input_allocate_device_ret pf)
           (input_register_device_ret pf),
         Dev_err client (''Failed to register input device. Error code: %d'' @ newline)
           [input_register_device_ret pf]]\<rparr>)"
  by (simp add: mtl2_touchscreen_probe_def gpio_request_def gpio_to_irq_def
      devm_request_irq_def i2c_check_functionality_def devm_input_allocate_device_def
      input_register_device_def emit_def Let_def)

lemma probe_success:
  "gpio_request_ret pf = 0 \<Longrightarrow> 0 \<le> gpio_to_irq_ret pf \<Longrightarrow> devm_request_irq_ret pf = 0 \<Longrightarrow>
   i2c_check_functionality_ret pf \<noteq> 0 \<Longrightarrow> devm_input_allocate_device_ret pf \<noteq> NULL \<Longrightarrow>
   input_register_device_ret pf = 0 \<Longrightarrow>
   mtl2_touchscreen_probe pf client w =
     (None,
      w\<lparr>data_input := devm_input_allocate_device_ret pf,
        mtl2_irq := gpio_to_irq_ret pf,
        calls := calls w @
        [Gpio_request INT_GPIO_PIN 0,
         Gpio_to_irq INT_GPIO_PIN (gpio_to_irq_ret pf),
         Printk KERN_INFO (''Mapped int %d'' @ newline) [gpio_to_irq_ret pf],
         Devm_request_irq client (gpio_to_irq_ret pf) IRQF_TRIGGER_RISING ''mtl2_irq'' 0,
         I2c_check_functionality client I2C_FUNC_I2C (i2c_check_functionality_ret pf),
         Devm_input_allocate_device client (devm_input_allocate_device_ret pf),
         Store_input_name (devm_input_allocate_device_ret pf) ''MTL2 Touchscreen'',
         Store_input_bustype (devm_input_allocate_device_ret pf) BUS_I2C,
         Store_input_parent (devm_input_allocate_device_ret pf) client,
         Set_bit_propbit (devm_input_allocate_device_ret pf) INPUT_PROP_DIRECT,
         Input_set_capability (devm_input_allocate_device_ret pf) EV_KEY BTN_TOUCH,
         Input_set_abs_params (devm_input_allocate_device_ret pf) ABS_X 0 MTL2_MAX_X 0 0,
         Input_set_abs_params (devm_input_allocate_device_ret pf) ABS_Y 0 MTL2_MAX_Y 0 0,
         Input_set_drvdata (devm_input_allocate_device_ret pf),
         Input_register_device (devm_input_allocate_device_ret pf) 0]\<rparr>)"
  by (simp add: mtl2_touchscreen_probe_def gpio_request_def gpio_to_irq_def
      devm_request_irq_def i2c_check_functionality_def devm_input_allocate_device_def
      input_register_device_def emit_def Let_def)

section \<open>The paths through Attach\<close>

lemma probe_paths [case_names gpio map install bus alloc register ok]:
  obtains "gpio_request_ret pf \<noteq> 0"
  | "gpio_request_ret pf = 0" "gpio_to_irq_ret pf < 0"
  | "gpio_request_ret pf = 0" "0 \<le> gpio_to_irq_ret pf" "devm_request_irq_ret pf \<noteq> 0"
  | "gpio_request_ret pf = 0" "0 \<le> gpio_to_irq_ret pf" "devm_request_irq_ret pf = 0"
      "i2c_check_functionality_ret pf = 0"
  | "gpio_request_ret pf = 0" "0 \<le> gpio_to_irq_ret pf" "devm_request_irq_ret pf = 0"
      "i2c_check_functionality_ret pf \<noteq> 0" "devm_input_allocate_device_ret pf = NULL"
  | "gpio_request_ret pf = 0" "0 \<le> gpio_to_irq_ret pf" "devm_request_irq_ret pf = 0"
      "i2c_check_functionality_ret pf \<noteq> 0" "devm_input_allocate_device_ret pf \<noteq> NULL"
      "input_register_device_ret pf \<noteq> 0"
  | "gpio_request_ret pf = 0" "0 \<le> gpio_to_irq_ret pf" "devm_request_irq_ret pf = 0"
      "i2c_check_functionality_ret pf \<noteq> 0" "devm_input_allocate_device_ret pf \<noteq> NULL"
      "input_register_device_ret pf = 0"
  by (meson not_le)

lemma failure_kind_iff:
  "failure_kind pf = Some ResourceBusy \<longleftrightarrow> gpio_request_ret pf \<noteq> 0"
  "failure_kind pf = Some InterruptMappingFailure \<longleftrightarrow>
     gpio_request_ret pf = 0 \<and> gpio_to_irq_ret pf < 0"
  "failure_kind pf = Some InstallError \<longleftrightarrow>
     gpio_request_ret pf = 0 \<and> 0 \<le> gpio_to_irq_ret pf \<and> devm_request_irq_ret pf \<noteq> 0"
  "failure_kind pf = Some UnsupportedBus \<longleftrightarrow>
     gpio_request_ret pf = 0 \<and> 0 \<le> gpio_to_irq_ret pf \<and> devm_request_irq_ret pf = 0
     \<and> i2c_check_functionality_ret pf = 0"
  "failure_kind pf = Some AllocationFailure \<longleftrightarrow>
     gpio_request_ret pf = 0 \<and> 0 \<le> gpio_to_irq_ret pf \<and> devm_request_irq_ret pf = 0
     \<and> i2c_check_functionality_ret pf \<noteq> 0 \<and> devm_input_allocate_device_ret pf = NULL"
  "failure_kind pf = Some RegistrationError \<longleftrightarrow>
     gpio_request_ret pf = 0 \<and> 0 \<le> gpio_to_irq_ret pf \<and> devm_request_irq_ret pf = 0
     \<and> i2c_check_functionality_ret pf \<noteq> 0 \<and> devm_input_allocate_device_ret pf \<noteq> NULL
     \<and> input_register_device_ret pf \<noteq> 0"
  "failure_kind pf = None \<longleftrightarrow>
     gpio_request_ret pf = 0 \<and> 0 \<le> gpio_to_irq_ret pf \<and> devm_request_irq_ret pf = 0
     \<and> i2c_check_functionality_ret pf \<noteq> 0 \<and> devm_input_allocate_device_ret pf \<noteq> NULL
     \<and> input_register_device_ret pf = 0"
  by (auto simp add: failure_kind_def)

lemmas probe_results =
  probe_gpio_fail probe_map_fail probe_install_fail probe_bus_fail probe_alloc_fail
  probe_register_fail probe_success

lemma probe_reads: "reads_of (issued w (snd (mtl2_touchscreen_probe pf client w))) = []"
  by (cases pf rule: probe_paths)
    (simp_all add: probe_results issued_append issued_append_more reads_of_def
      map_filter_simps)

lemma probe_no_release:
  "filter is_release (issued w (snd (mtl2_touchscreen_probe pf client w))) = []"
  by (cases pf rule: probe_paths)
    (simp_all add: probe_results issued_append issued_append_more)

lemma probe_held_mono:
  "held (calls w) \<subseteq> held (calls (snd (mtl2_touchscreen_probe pf client w)))"
  by (cases pf rule: probe_paths) (auto simp add: probe_results held_append)

section \<open>A sample interrupt\<close>

lemma irq_example:
  "filter is_input_event
     (issued initial_world (snd (mtl2_touchscreen_irq example_platform irq initial_world))) =
   [Input_report_abs NULL ABS_X 100, Input_report_abs NULL ABS_Y 300,
    Input_report_key NULL BTN_TOUCH 1, Input_sync NULL]"
proof -
  have "uint (create_coord 0x00 0x64) = 100" "uint (create_coord 0x01 0x2C) = 300"
    by (simp_all add: create_coord_eq)
  then show ?thesis
    by (simp add: irq_result issued_def example_platform_def initial_world_def
        TOUCH1_XH_def TOUCH1_XL_def TOUCH1_YH_def TOUCH1_YL_def)
qed

section \<open>Claims about the decoder\<close>

text \<open>
  C1. For every pair of input bytes \<open>high\<close> and \<open>low\<close>, \<open>create_coord\<close>, which sets
  the bits of its result one at a time in two loops, returns exactly
  \<open>low | ((high & 0x0F) << 8)\<close>. In particular the bytes \<open>0x01, 0xA3\<close> decode to
  \<open>0x1A3\<close> (419) and the bytes \<open>0xFF, 0x00\<close> decode to \<open>0x0F00\<close> (3840).
\<close>

theorem create_coord_packed:
  "create_coord high low = ucast low OR push_bit 8 (ucast (high AND 0x0F))
   \<and> create_coord 0x01 0xA3 = 0x1A3 \<and> uint (create_coord 0x01 0xA3) = 419
   \<and> create_coord 0xFF 0x00 = 0x0F00 \<and> uint (create_coord 0xFF 0x00) = 3840"
proof -
  have "create_coord high low = ucast low OR push_bit 8 (ucast (high AND 0x0F))"
    by (rule create_coord_eq)
  moreover have "create_coord 0x01 0xA3 = 0x1A3"
    by (simp add: create_coord_eq)
  moreover have "create_coord 0xFF 0x00 = 0x0F00"
    by (simp add: create_coord_eq)
  ultimately show ?thesis
    by simp
qed

text \<open>
  C9. The decoder is injective once the high byte is restricted to \<open>0x00..0x0F\<close>: two
  byte pairs decode to the same coordinate exactly when their low bytes and the low
  nibbles of their high bytes agree. For every high and low byte the result is that of
  the high byte masked with \<open>0x0F\<close>. Concretely \<open>(0, 0)\<close> decodes to 0,
  \<open>(0x0F, 0xFF)\<close> to 4095, which no result exceeds, and \<open>(0x10, 0x00)\<close> to 0.
\<close>

theorem create_coord_injective:
  "(create_coord h1 l1 = create_coord h2 l2 \<longleftrightarrow> h1 AND 0x0F = h2 AND 0x0F \<and> l1 = l2)
   \<and> inj_on (\<lambda>(h, l). create_coord h l) ({h. h \<le> 0x0F} \<times> UNIV)
   \<and> create_coord h l = create_coord (h AND 0x0F) l
   \<and> create_coord 0 0 = 0
   \<and> create_coord 0x0F 0xFF = 4095
   \<and> create_coord h l \<le> 4095
   \<and> create_coord 0x10 0x00 = 0"
proof -
  have "inj_on (\<lambda>(h, l). create_coord h l) ({h. h \<le> 0x0F} \<times> UNIV)"
    by (rule inj_onI) (auto simp add: create_coord_eq_iff low_nibble_id)
  moreover have "create_coord h l = create_coord (h AND 0x0F) l"
    by (simp add: create_coord_eq_iff)
  moreover have "create_coord 0 0 = 0"
    by (simp add: create_coord_eq)
  moreover have "create_coord 0x0F 0xFF = 4095"
    by (simp add: create_coord_eq)
  moreover have "create_coord 0x10 0x00 = 0"
    by (simp add: create_coord_eq)
  ultimately show ?thesis
    using create_coord_eq_iff [of h1 l1 h2 l2] create_coord_le [of h l] by simp
qed

section \<open>Claims about the interrupt handler\<close>

text \<open>
  C2. In every interrupt episode the handler reports to the input device exactly one
  absolute X, one absolute Y, one \<open>BTN_TOUCH\<close> key event with value 1 (pressed) and one
  synchronize, in that order, and it reports no key event with value 0 (released). The
  handler tests nothing before doing so: this holds from every state of the driver.
\<close>

theorem irq_frame:
  "filter is_input_event (issued w (snd (mtl2_touchscreen_irq pf irq w))) =
     [Input_report_abs (data_input w) ABS_X
        (uint (create_coord (ucast (i2c_smbus_read_byte_data_ret pf TOUCH1_XH))
                            (ucast (i2c_smbus_read_byte_data_ret pf TOUCH1_XL)))),
      Input_report_abs (data_input w) ABS_Y
        (uint (create_coord (ucast (i2c_smbus_read_byte_data_ret pf TOUCH1_YH))
                            (ucast (i2c_smbus_read_byte_data_ret pf TOUCH1_YL)))),
      Input_report_key (data_input w) BTN_TOUCH 1,
      Input_sync (data_input w)]
   \<and> Input_report_key input code 0 \<notin> set (issued w (snd (mtl2_touchscreen_irq pf irq w)))"
  by (simp add: irq_result issued_append)

text \<open>
  C4. A failed register read is not told apart from data. Whatever the four reads
  return, a negative errno included, each result is narrowed to its low eight bits (its
  value modulo 256), the bytes are decoded, the frame of four input events is emitted
  and the handler returns \<open>IRQ_HANDLED\<close>. When every read fails with \<open>-EIO\<close> (-5) the
  bytes are \<open>0xFB\<close> and both reported coordinates are \<open>0xBFB\<close> (3067).
\<close>

theorem irq_read_error_narrowed:
  "fst (mtl2_touchscreen_irq pf irq w) = IRQ_HANDLED
   \<and> filter is_input_event (issued w (snd (mtl2_touchscreen_irq pf irq w))) =
     [Input_report_abs (data_input w) ABS_X
        (uint (create_coord (word_of_int (sint (i2c_smbus_read_byte_data_ret pf TOUCH1_XH) mod 256))
                 (word_of_int (sint (i2c_smbus_read_byte_data_ret pf TOUCH1_XL) mod 256)))),
      Input_report_abs (data_input w) ABS_Y
        (uint (create_coord (word_of_int (sint (i2c_smbus_read_byte_data_ret pf TOUCH1_YH) mod 256))
                 (word_of_int (sint (i2c_smbus_read_byte_data_ret pf TOUCH1_YL) mod 256)))),
      Input_report_key (data_input w) BTN_TOUCH 1,
      Input_sync (data_input w)]
   \<and> sint (- 5 :: s32) = - 5
   \<and> filter is_input_event
        (issued w (snd (mtl2_touchscreen_irq
           (pf\<lparr>i2c_smbus_read_byte_data_ret := \<lambda>reg. - 5\<rparr>) irq w))) =
     [Input_report_abs (data_input w) ABS_X 3067,
      Input_report_abs (data_input w) ABS_Y 3067,
      Input_report_key (data_input w) BTN_TOUCH 1,
      Input_sync (data_input w)]"
proof -
  have "uint (create_coord (ucast (- 5 :: s32)) (ucast (- 5 :: s32))) = 3067"
    by (simp add: create_coord_eq)
  then show ?thesis
    by (simp add: irq_result issued_append flip: ucast_s32_u8)
qed

text \<open>
  C8. In every interrupt episode the handler reads exactly four registers, those of touch
  slot 1 at offsets \<open>0x03\<close> (X high), \<open>0x04\<close> (X low), \<open>0x05\<close> (Y high) and \<open>0x06\<close>
  (Y low), in that order. The registers of slots 2 to 5 are in the register map, at
  \<open>0x09..0x0C\<close>, \<open>0x0F..0x12\<close>, \<open>0x15..0x18\<close> and \<open>0x1B..0x1E\<close>, and are never read:
  not by the handler, and the other entry points read no register at all.
\<close>

theorem irq_reads_slot1_only:
  "reads_of (issued w (snd (mtl2_touchscreen_irq pf irq w))) =
     [TOUCH1_XH, TOUCH1_XL, TOUCH1_YH, TOUCH1_YL]
   \<and> [TOUCH1_XH, TOUCH1_XL, TOUCH1_YH, TOUCH1_YL] = [0x03, 0x04, 0x05, 0x06]
   \<and> [TOUCH2_XH, TOUCH2_XL, TOUCH2_YH, TOUCH2_YL] = [0x09, 0x0A, 0x0B, 0x0C]
   \<and> [TOUCH3_XH, TOUCH3_XL, TOUCH3_YH, TOUCH3_YL] = [0x0F, 0x10, 0x11, 0x12]
   \<and> [TOUCH4_XH, TOUCH4_XL, TOUCH4_YH, TOUCH4_YL] = [0x15, 0x16, 0x17, 0x18]
   \<and> [TOUCH5_XH, TOUCH5_XL, TOUCH5_YH, TOUCH5_YL] = [0x1B, 0x1C, 0x1D, 0x1E]
   \<and> set (reads_of (issued w (snd (mtl2_touchscreen_irq pf irq w)))) \<inter>
       set [TOUCH2_XH, TOUCH2_XL, TOUCH2_YH, TOUCH2_YL, TOUCH3_XH, TOUCH3_XL, TOUCH3_YH, TOUCH3_YL,
            TOUCH4_XH, TOUCH4_XL, TOUCH4_YH, TOUCH4_YL, TOUCH5_XH, TOUCH5_XL, TOUCH5_YH, TOUCH5_YL]
       = {}
   \<and> reads_of (issued w (snd (mtl2_touchscreen_probe pf client w))) = []
   \<and> reads_of (issued w (snd (mtl2_touchscreen_init pf w))) = []
   \<and> reads_of (issued w (snd (mtl2_touchscreen_exit w))) = []"
proof -
  have regs:
    "[TOUCH1_XH, TOUCH1_XL, TOUCH1_YH, TOUCH1_YL] = [0x03, 0x04, 0x05, 0x06]"
    "[TOUCH2_XH, TOUCH2_XL, TOUCH2_YH, TOUCH2_YL] = [0x09, 0x0A, 0x0B, 0x0C]"
    "[TOUCH3_XH, TOUCH3_XL, TOUCH3_YH, TOUCH3_YL] = [0x0F, 0x10, 0x11, 0x12]"
    "[TOUCH4_XH, TOUCH4_XL, TOUCH4_YH, TOUCH4_YL] = [0x15, 0x16, 0x17, 0x18]"
    "[TOUCH5_XH, TOUCH5_XL, TOUCH5_YH, TOUCH5_YL] = [0x1B, 0x1C, 0x1D, 0x1E]"
    by (simp_all add: TOUCH1_XH_def TOUCH1_XL_def TOUCH1_YH_def TOUCH1_YL_def
        TOUCH2_XH_def TOUCH2_XL_def TOUCH2_YH_def TOUCH2_YL_def
        TOUCH3_XH_def TOUCH3_XL_def TOUCH3_YH_def TOUCH3_YL_def
        TOUCH4_XH_def TOUCH4_XL_def TOUCH4_YH_def TOUCH4_YL_def
        TOUCH5_XH_def TOUCH5_XL_def TOUCH5_YH_def TOUCH5_YL_def)
  have rd: "reads_of (issued w (snd (mtl2_touchscreen_irq pf irq w))) =
      [TOUCH1_XH, TOUCH1_XL, TOUCH1_YH, TOUCH1_YL]"
    by (simp add: irq_result issued_append reads_of_def map_filter_simps)
  have disj: "set [TOUCH1_XH, TOUCH1_XL, TOUCH1_YH, TOUCH1_YL] \<inter>
       set [TOUCH2_XH, TOUCH2_XL, TOUCH2_YH, TOUCH2_YL, TOUCH3_XH, TOUCH3_XL, TOUCH3_YH, TOUCH3_YL,
            TOUCH4_XH, TOUCH4_XL, TOUCH4_YH, TOUCH4_YL, TOUCH5_XH, TOUCH5_XL, TOUCH5_YH, TOUCH5_YL]
       = {}"
    by (simp add: TOUCH1_XH_def TOUCH1_XL_def TOUCH1_YH_def TOUCH1_YL_def
        TOUCH2_XH_def TOUCH2_XL_def TOUCH2_YH_def TOUCH2_YL_def
        TOUCH3_XH_def TOUCH3_XL_def TOUCH3_YH_def TOUCH3_YL_def
        TOUCH4_XH_def TOUCH4_XL_def TOUCH4_YH_def TOUCH4_YL_def
        TOUCH5_XH_def TOUCH5_XL_def TOUCH5_YH_def TOUCH5_YL_def)
  have "reads_of (issued w (snd (mtl2_touchscreen_init pf w))) = []"
    by (simp add: init_result issued_append_more reads_of_def map_filter_simps)
  moreover have "reads_of (issued w (snd (mtl2_touchscreen_exit w))) = []"
    by (simp add: exit_result issued_append reads_of_def map_filter_simps)
  moreover note probe_reads [of w pf client]
  ultimately show ?thesis
    using regs rd disj by (simp only: simp_thms)
qed

text \<open>
  C10. The handler does not clamp. In every interrupt episode the values it reports for
  the X and the Y axis are the decoder's outputs, unchanged, although a successful
  Attach has declared the ranges 0 to 480 for X and 0 to 800 for Y. With X-high
  \<open>0x0F\<close> and X-low \<open>0xFF\<close> on the bus the reported X is 4095, above the declared
  maximum of 480.
\<close>

theorem irq_no_clamp:
  "List.map_filter abs_report (issued w (snd (mtl2_touchscreen_irq pf irq w))) =
     [(ABS_X, uint (create_coord (ucast (i2c_smbus_read_byte_data_ret pf TOUCH1_XH))
                                 (ucast (i2c_smbus_read_byte_data_ret pf TOUCH1_XL)))),
      (ABS_Y, uint (create_coord (ucast (i2c_smbus_read_byte_data_ret pf TOUCH1_YH))
                                 (ucast (i2c_smbus_read_byte_data_ret pf TOUCH1_YL))))]
   \<and> (failure_kind pf = None \<longrightarrow>
        List.map_filter abs_range (issued w (snd (mtl2_touchscreen_probe pf client w))) =
          [(ABS_X, 0, MTL2_MAX_X), (ABS_Y, 0, MTL2_MAX_Y)])
   \<and> MTL2_MAX_X = 480 \<and> MTL2_MAX_Y = 800
   \<and> List.map_filter abs_report
        (issued w (snd (mtl2_touchscreen_irq
           (pf\<lparr>i2c_smbus_read_byte_data_ret :=
                 \<lambda>reg. if reg = TOUCH1_XH then 0x0F else 0xFF\<rparr>) irq w))) =
     [(ABS_X, 4095), (ABS_Y, 4095)]
   \<and> MTL2_MAX_X < 4095 \<and> MTL2_MAX_Y < 4095"
proof -
  have "uint (create_coord 0x0F 0xFF) = 4095" "uint (create_coord 0xFF 0xFF) = 4095"
    by (simp_all add: create_coord_eq)
  then have "List.map_filter abs_report
        (issued w (snd (mtl2_touchscreen_irq
           (pf\<lparr>i2c_smbus_read_byte_data_ret :=
                 \<lambda>reg. if reg = TOUCH1_XH then 0x0F else 0xFF\<rparr>) irq w))) =
     [(ABS_X, 4095), (ABS_Y, 4095)]"
    by (simp add: irq_result issued_append map_filter_simps
        TOUCH1_XH_def TOUCH1_XL_def TOUCH1_YH_def TOUCH1_YL_def)
  moreover have "List.map_filter abs_range
      (issued w (snd (mtl2_touchscreen_probe pf client w))) =
        [(ABS_X, 0, MTL2_MAX_X), (ABS_Y, 0, MTL2_MAX_Y)]"
    if "failure_kind pf = None"
    using that
    by (simp add: failure_kind_iff probe_success issued_append_more map_filter_simps)
  ultimately show ?thesis
    by (simp add: irq_result issued_append map_filter_simps MTL2_MAX_X_def MTL2_MAX_Y_def)
qed

theorem irq_no_clamp_witness:
  "failure_kind example_platform = None
   \<and> List.map_filter abs_range
        (issued initial_world (snd (mtl2_touchscreen_probe example_platform (Ptr 1) initial_world))) =
      [(0, 0, 480), (1, 0, 800)]
   \<and> List.map_filter abs_report
        (issued initial_world (snd (mtl2_touchscreen_irq
           (example_platform\<lparr>i2c_smbus_read_byte_data_ret :=
                 \<lambda>reg. if reg = TOUCH1_XH then 0x0F else 0xFF\<rparr>) 17 initial_world))) =
      [(0, 4095), (1, 4095)]"
proof -
  have k: "failure_kind example_platform = None"
    by (simp add: failure_kind_def example_platform_def)
  show ?thesis
    using k irq_no_clamp [where pf = example_platform and w = initial_world
        and client = "Ptr 1" and irq = 17]
    by (simp add: ABS_X_def ABS_Y_def)
qed

section \<open>Claims about detach\<close>

text \<open>
  C3. Detach issues the four release calls in this order: disable the interrupt line,
  free the GPIO pin, unregister the input device, unregister the bus client. It does so
  from every state of the driver, with no test between the calls; the calls return
  nothing, so no failure of one could stop the next. The whole run is a log line, the
  four releases and the removal of the driver from the bus core.
\<close>

theorem exit_releases_in_order:
  "filter is_release (issued w (snd (mtl2_touchscreen_exit w))) =
     [Disable_irq (mtl2_irq w),
      Gpio_free INT_GPIO_PIN,
      Input_unregister_device (data_input w),
      I2c_unregister_device (data_client w)]
   \<and> issued w (snd (mtl2_touchscreen_exit w)) =
     [Printk KERN_CONT ''Removing module.'' [],
      Disable_irq (mtl2_irq w),
      Gpio_free INT_GPIO_PIN,
      Input_unregister_device (data_input w),
      I2c_unregister_device (data_client w),
      I2c_del_driver]"
  by (simp add: exit_result issued_append)

section \<open>Claims about attach\<close>

text \<open>
  C5. When the reservation of the GPIO pin fails, Attach returns the error -1 at once:
  the request and the log line of the failure are the only calls it issues, so the
  interrupt mapping, the handler installation, the bus check, the input device
  allocation and its registration are not attempted; the driver's globals and the
  resources held are as before.
\<close>

theorem probe_gpio_busy_aborts:
  assumes "gpio_request_ret pf \<noteq> 0"
  shows "mtl2_touchscreen_probe pf client w =
      (Some (- 1),
       w\<lparr>calls := calls w @
         [Gpio_request INT_GPIO_PIN (gpio_request_ret pf),
          Dev_err client ''GPIO request failure.'' []]\<rparr>)
    \<and> List.map_filter attach_step (issued w (snd (mtl2_touchscreen_probe pf client w))) =
        [ResourceBusy]
    \<and> held (calls (snd (mtl2_touchscreen_probe pf client w))) = held (calls w)"
  using assms
  by (simp add: probe_gpio_fail issued_append held_append map_filter_simps)

theorem probe_gpio_busy_aborts_witness:
  "gpio_request_ret (example_platform\<lparr>gpio_request_ret := - 16\<rparr>) \<noteq> 0
   \<and> mtl2_touchscreen_probe (example_platform\<lparr>gpio_request_ret := - 16\<rparr>) (Ptr 1) initial_world =
      (Some (- 1),
       \<lparr>data_client = NULL, data_input = NULL, mtl2_irq = - 1,
        calls = [Gpio_request 4 (- 16), Dev_err (Ptr 1) ''GPIO request failure.'' []]\<rparr>)
   \<and> held (calls (snd (mtl2_touchscreen_probe (example_platform\<lparr>gpio_request_ret := - 16\<rparr>)
         (Ptr 1) initial_world))) = {}"
  using probe_gpio_busy_aborts
    [where pf = "example_platform\<lparr>gpio_request_ret := - 16\<rparr>" and client = "Ptr 1"
      and w = initial_world]
  by (simp add: initial_world_def INT_GPIO_PIN_def held_def)

text \<open>
  C6, as stated, fails: the error result of Attach does not tell the six failure kinds
  apart. A busy GPIO pin and a pin without an interrupt line both make Attach return -1.
\<close>

theorem probe_errno_not_distinct:
  "failure_kind (example_platform\<lparr>gpio_request_ret := - 16\<rparr>) = Some ResourceBusy
   \<and> failure_kind (example_platform\<lparr>gpio_to_irq_ret := - 6\<rparr>) = Some InterruptMappingFailure
   \<and> fst (mtl2_touchscreen_probe (example_platform\<lparr>gpio_request_ret := - 16\<rparr>) (Ptr 1)
        initial_world) = Some (- 1)
   \<and> fst (mtl2_touchscreen_probe (example_platform\<lparr>gpio_to_irq_ret := - 6\<rparr>) (Ptr 1)
        initial_world) = Some (- 1)"
  by (simp add: failure_kind_def example_platform_def probe_gpio_fail probe_map_fail)

text \<open>
  C6, amended. Each of the six failure kinds is detected during Attach and ends it at
  once: the acquisition steps attempted are those up to and including the failing one.
  Attach returns -1 for a busy GPIO pin and for a failed interrupt mapping alike,
  \<open>-ENODEV\<close> for a failed handler installation, \<open>-ENXIO\<close> for an unsupported bus,
  \<open>-ENOMEM\<close> for a failed allocation, and the code of the registration call for a
  failed registration. What tells two different failure kinds apart is the error
  message logged, a failed allocation being the one that logs none.
\<close>

theorem probe_failure_causes:
  assumes "failure_kind p1 = Some k1" and "failure_kind p2 = Some k2"
  shows "fst (mtl2_touchscreen_probe p1 c1 w1) = Some (attach_errno p1 k1)
    \<and> List.map_filter attach_step (issued w1 (snd (mtl2_touchscreen_probe p1 c1 w1))) =
        steps_through k1
    \<and> (k1 \<noteq> k2 \<longrightarrow>
        logged (issued w1 (snd (mtl2_touchscreen_probe p1 c1 w1))) \<noteq>
        logged (issued w2 (snd (mtl2_touchscreen_probe p2 c2 w2))))"
proof -
  have res: "fst (mtl2_touchscreen_probe p c w) = Some (attach_errno p k)
      \<and> List.map_filter attach_step (issued w (snd (mtl2_touchscreen_probe p c w))) =
          steps_through k
      \<and> logged (issued w (snd (mtl2_touchscreen_probe p c w))) =
          (case k of
             ResourceBusy \<Rightarrow> [''GPIO request failure.'']
           | InterruptMappingFailure \<Rightarrow> [''GPIO mapping to IQR failure.'']
           | InstallError \<Rightarrow> [''IRQ request failure.'' @ newline]
           | UnsupportedBus \<Rightarrow> [''i2c_check_functionality error'' @ newline]
           | AllocationFailure \<Rightarrow> []
           | RegistrationError \<Rightarrow>
               [''Failed to register input device. Error code: %d'' @ newline])"
    if "failure_kind p = Some k" for p k c w
    using that
    by (cases k)
      (simp_all add: failure_kind_iff probe_results issued_append issued_append_more
        attach_errno_def steps_through_def attach_order_def logged_def map_filter_simps)
  have "logged (issued w1 (snd (mtl2_touchscreen_probe p1 c1 w1))) \<noteq>
      logged (issued w2 (snd (mtl2_touchscreen_probe p2 c2 w2)))" if "k1 \<noteq> k2"
    using that res [OF assms(1), of c1 w1] res [OF assms(2), of c2 w2]
    by (cases k1; cases k2) (simp_all add: newline_def)
  with res [OF assms(1), of c1 w1] show ?thesis
    by simp
qed

theorem probe_failure_causes_witness:
  "failure_kind (example_platform\<lparr>i2c_check_functionality_ret := 0\<rparr>) = Some UnsupportedBus
   \<and> failure_kind (example_platform\<lparr>devm_input_allocate_device_ret := NULL\<rparr>) =
       Some AllocationFailure
   \<and> fst (mtl2_touchscreen_probe (example_platform\<lparr>i2c_check_functionality_ret := 0\<rparr>)
        (Ptr 1) initial_world) = Some (- 6)
   \<and> List.map_filter attach_step
        (issued initial_world
          (snd (mtl2_touchscreen_probe (example_platform\<lparr>i2c_check_functionality_ret := 0\<rparr>)
            (Ptr 1) initial_world))) =
      [ResourceBusy, InterruptMappingFailure, InstallError, UnsupportedBus]
   \<and> logged
        (issued initial_world
          (snd (mtl2_touchscreen_probe (example_platform\<lparr>i2c_check_functionality_ret := 0\<rparr>)
            (Ptr 1) initial_world))) \<noteq>
      logged
        (issued initial_world
          (snd (mtl2_touchscreen_probe
            (example_platform\<lparr>devm_input_allocate_device_ret := NULL\<rparr>)
            (Ptr 1) initial_world)))"
proof -
  have k1: "failure_kind (example_platform\<lparr>i2c_check_functionality_ret := 0\<rparr>) =
      Some UnsupportedBus"
    by (simp add: failure_kind_def example_platform_def)
  have k2: "failure_kind (example_platform\<lparr>devm_input_allocate_device_ret := NULL\<rparr>) =
      Some AllocationFailure"
    by (simp add: failure_kind_def example_platform_def)
  show ?thesis
    using k1 k2
      probe_failure_causes [OF k1 k2, where ?c1.0 = "Ptr 1" and ?w1.0 = initial_world
        and ?c2.0 = "Ptr 1" and ?w2.0 = initial_world]
    by (simp add: attach_errno_def ENXIO_def steps_through_def attach_order_def)
qed

text \<open>
  C7. Attach never gives back what it acquired: on no path does it issue a release
  call, so the resources held can only grow. When the bus check fails, Attach returns
  \<open>-ENXIO\<close> with the GPIO pin still reserved and the handler still installed; when the
  registration fails, it returns the registration's code with the pin, the handler and
  the allocated input device still held. In both cases the resources held are those
  acquired before the failing step. (Releases the kernel performs by itself after
  Attach has returned are outside the driver.)
\<close>

theorem probe_no_rollback:
  "filter is_release (issued w (snd (mtl2_touchscreen_probe pf client w))) = []
   \<and> held (calls w) \<subseteq> held (calls (snd (mtl2_touchscreen_probe pf client w)))
   \<and> (failure_kind pf = Some UnsupportedBus \<longrightarrow>
        fst (mtl2_touchscreen_probe pf client w) = Some (- ENXIO)
        \<and> held (calls (snd (mtl2_touchscreen_probe pf client w))) =
            held (calls w) \<union> {Gpio_pin INT_GPIO_PIN, Irq_handler (gpio_to_irq_ret pf)})
   \<and> (failure_kind pf = Some RegistrationError \<longrightarrow>
        fst (mtl2_touchscreen_probe pf client w) = Some (input_register_device_ret pf)
        \<and> held (calls (snd (mtl2_touchscreen_probe pf client w))) =
            held (calls w) \<union> {Gpio_pin INT_GPIO_PIN, Irq_handler (gpio_to_irq_ret pf),
              Input_device (devm_input_allocate_device_ret pf)})"
proof -
  have "fst (mtl2_touchscreen_probe pf client w) = Some (- ENXIO)
      \<and> held (calls (snd (mtl2_touchscreen_probe pf client w))) =
          held (calls w) \<union> {Gpio_pin INT_GPIO_PIN, Irq_handler (gpio_to_irq_ret pf)}"
    if "failure_kind pf = Some UnsupportedBus"
    using that by (auto simp add: failure_kind_iff probe_bus_fail held_append)
  moreover have "fst (mtl2_touchscreen_probe pf client w) = Some (input_register_device_ret pf)
      \<and> held (calls (snd (mtl2_touchscreen_probe pf client w))) =
          held (calls w) \<union> {Gpio_pin INT_GPIO_PIN, Irq_handler (gpio_to_irq_ret pf),
            Input_device (devm_input_allocate_device_ret pf)}"
    if "failure_kind pf = Some RegistrationError"
    using that by (auto simp add: failure_kind_iff probe_register_fail held_append)
  ultimately show ?thesis
    using probe_no_release [of w pf client] probe_held_mono [of w pf client] by blast
qed

theorem probe_no_rollback_witness:
  "failure_kind (example_platform\<lparr>i2c_check_functionality_ret := 0\<rparr>) = Some UnsupportedBus
   \<and> fst (mtl2_touchscreen_probe (example_platform\<lparr>i2c_check_functionality_ret := 0\<rparr>)
        (Ptr 1) initial_world) = Some (- 6)
   \<and> held (calls (snd (mtl2_touchscreen_probe
        (example_platform\<lparr>i2c_check_functionality_ret := 0\<rparr>) (Ptr 1) initial_world))) =
      {Gpio_pin 4, Irq_handler 17}
   \<and> failure_kind (example_platform\<lparr>input_register_device_ret := - 22\<rparr>) =
       Some RegistrationError
   \<and> fst (mtl2_touchscreen_probe (example_platform\<lparr>input_register_device_ret := - 22\<rparr>)
        (Ptr 1) initial_world) = Some (- 22)
   \<and> held (calls (snd (mtl2_touchscreen_probe
        (example_platform\<lparr>input_register_device_ret := - 22\<rparr>) (Ptr 1) initial_world))) =
      {Gpio_pin 4, Irq_handler 17, Input_device (Ptr 2)}"
proof -
  have k1: "failure_kind (example_platform\<lparr>i2c_check_functionality_ret := 0\<rparr>) =
      Some UnsupportedBus"
    by (simp add: failure_kind_def example_platform_def)
  have k2: "failure_kind (example_platform\<lparr>input_register_device_ret := - 22\<rparr>) =
      Some RegistrationError"
    by (simp add: failure_kind_def example_platform_def)
  have h0: "held (calls initial_world) = {}"
    by (simp add: held_def initial_world_def)
  show ?thesis
    using k1 k2 h0
      probe_no_rollback [where w = initial_world and client = "Ptr 1"
        and pf = "example_platform\<lparr>i2c_check_functionality_ret := 0\<rparr>"]
      probe_no_rollback [where w = initial_world and client = "Ptr 1"
        and pf = "example_platform\<lparr>input_register_device_ret := - 22\<rparr>"]
    by (simp add: ENXIO_def INT_GPIO_PIN_def example_platform_def)
qed

end
